theory Spec2Isabelle
  imports Main "HOL-Library.Word"
begin

section \<open>Data model\<close>

text \<open>
  The extractor (\<^verbatim>\<open>eml-extractor.py\<close>) reads message files, and writes every attachment
  into one flat target directory.  Bytes are 8-bit words, a file's content is a list of
  bytes, and the file system is a map from path strings to contents: a path is bound
  exactly when \<^verbatim>\<open>os.path.exists\<close> holds for it.  Only regular, readable files are
  modelled; two different path strings name two different files.
\<close>

type_synonym byte = "8 word"
type_synonym bytes = "byte list"
type_synonym filesystem = "string \<rightharpoonup> bytes"

datatype error = FileNotFoundError | MessageParseError | TypeError

subsection \<open>The digest library\<close>

text \<open>
  \<^verbatim>\<open>hashlib\<close> is not part of the repository, so the hash object is a parameter: the state
  of a fresh object, the effect of \<^verbatim>\<open>update\<close> and the \<^verbatim>\<open>hexdigest\<close> of a state.
  \<^verbatim>\<open>hashlib.md5(data)\<close> is a fresh object updated once with \<^verbatim>\<open>data\<close>.
\<close>

record 's hashlib =
  md5_new :: 's
  md5_update :: "'s \<Rightarrow> bytes \<Rightarrow> 's"
  md5_hexdigest :: "'s \<Rightarrow> string"

text \<open>
  What the library documents of \<^verbatim>\<open>update\<close>: repeated calls are equivalent to a single
  call with the concatenation of the arguments, and feeding nothing changes nothing.
\<close>

definition hashlib_streaming :: "'s hashlib \<Rightarrow> bool" where
  "hashlib_streaming H \<longleftrightarrow>
     (\<forall>s. md5_update H s [] = s) \<and>
     (\<forall>s a b. md5_update H (md5_update H s a) b = md5_update H s (a @ b))"

subsection \<open>Path operations of \<^verbatim>\<open>os.path\<close> (POSIX)\<close>

definition os_path_exists :: "filesystem \<Rightarrow> string \<Rightarrow> bool" where
  "os_path_exists fs p \<longleftrightarrow> fs p \<noteq> None"

definition startswith_sep :: "string \<Rightarrow> bool" where
  "startswith_sep p \<longleftrightarrow> (case p of [] \<Rightarrow> False | c # _ \<Rightarrow> c = CHR ''/'')"

definition endswith_sep :: "string \<Rightarrow> bool" where
  "endswith_sep p \<longleftrightarrow> (case rev p of [] \<Rightarrow> False | c # _ \<Rightarrow> c = CHR ''/'')"

text \<open>\<^verbatim>\<open>posixpath.join(a, b)\<close>: an absolute second component replaces the first.\<close>

definition os_path_join :: "string \<Rightarrow> string \<Rightarrow> string" where
  "os_path_join a b =
     (if startswith_sep b then b
      else if a = [] \<or> endswith_sep a then a @ b
      else a @ ''/'' @ b)"

text \<open>\<^verbatim>\<open>str.rfind\<close> of a single character: the highest index, or -1.\<close>

fun rfind :: "string \<Rightarrow> char \<Rightarrow> int" where
  "rfind [] c = - 1"
| "rfind (x # xs) c =
     (let r = rfind xs c in if 0 \<le> r then r + 1 else if x = c then 0 else - 1)"

text \<open>
  The loop of \<^verbatim>\<open>genericpath._splitext\<close> that skips leading dots: it answers whether
  some character between \<open>filenameIndex\<close> and \<open>dotIndex\<close> is not a dot.
\<close>

function skip_leading_dots :: "string \<Rightarrow> int \<Rightarrow> int \<Rightarrow> bool" where
  "skip_leading_dots p filenameIndex dotIndex =
     (if filenameIndex < dotIndex then
        (if 0 \<le> filenameIndex \<and> p ! nat filenameIndex \<noteq> CHR ''.'' then True
         else skip_leading_dots p (filenameIndex + 1) dotIndex)
      else False)"
  by pat_completeness auto
termination
  by (relation "measure (\<lambda>(p, i, d). nat (d - i))") auto

declare skip_leading_dots.simps [simp del]

definition os_path_splitext :: "string \<Rightarrow> string \<times> string" where
  "os_path_splitext p =
     (let sepIndex = rfind p CHR ''/'';
          dotIndex = rfind p CHR ''.''
      in if sepIndex < dotIndex \<and> skip_leading_dots p (sepIndex + 1) dotIndex
         then (take (nat dotIndex) p, drop (nat dotIndex) p)
         else (p, []))"

subsection \<open>Decimal formatting of the counter\<close>

definition digit_char :: "nat \<Rightarrow> char" where
  "digit_char d = ''0123456789'' ! d"

fun str :: "nat \<Rightarrow> string" where
  "str n = (if n < 10 then [digit_char n] else str (n div 10) @ [digit_char (n mod 10)])"

declare str.simps [simp del]

section \<open>The digest operations\<close>

text \<open>\<^verbatim>\<open>file_md5(file_data)\<close>: the digest of a buffer held in memory.\<close>

definition file_md5 :: "'s hashlib \<Rightarrow> bytes \<Rightarrow> string" where
  "file_md5 H file_data = md5_hexdigest H (md5_update H (md5_new H) file_data)"

text \<open>
  The loop \<^verbatim>\<open>for chunk in iter(lambda: f.read(4096), b"")\<close>: the open file is the list
  of bytes not read yet; a read takes at most 4096 of them; the empty chunk ends the loop.
\<close>

function read_chunks :: "'s hashlib \<Rightarrow> bytes \<Rightarrow> 's \<Rightarrow> 's" where
  "read_chunks H f hash_md5 =
     (let chunk = take 4096 f in
      if chunk = [] then hash_md5
      else read_chunks H (drop 4096 f) (md5_update H hash_md5 chunk))"
  by pat_completeness auto
termination
  by (relation "measure (\<lambda>(H, f, s). length f)") auto

declare read_chunks.simps [simp del]

text \<open>\<^verbatim>\<open>existing_file_md5(file_path)\<close>: opening a missing file raises.\<close>

definition existing_file_md5 :: "'s hashlib \<Rightarrow> filesystem \<Rightarrow> string \<Rightarrow> error + string" where
  "existing_file_md5 H fs file_path =
     (case fs file_path of
        None \<Rightarrow> Inl FileNotFoundError
      | Some f \<Rightarrow> Inr (md5_hexdigest H (read_chunks H f (md5_new H))))"

section \<open>Name allocation\<close>

text \<open>
  The numbered search of \<^verbatim>\<open>make_unique_filename\<close>, from the value of \<open>counter\<close> on:
  \<^verbatim>\<open>
  while True:
      unique_filename = f"{base}_{counter}{extension}"
      unique_path = os.path.join(target_dir, unique_filename)
      if not os.path.exists(unique_path) or existing_file_md5(unique_path) == new_md5:
          break
      counter += 1
  \<close>
  The loop has no bound, so the function is partial: \<open>None\<close> is a search that never
  ends.  The result inside is the name at which the loop breaks, or the exception raised.
  \<open>numbered_name\<close> is the f-string.
\<close>

definition numbered_name :: "string \<Rightarrow> string \<Rightarrow> nat \<Rightarrow> string" where
  "numbered_name base extension counter = base @ ''_'' @ str counter @ extension"

partial_function (option) numbered_search ::
  "'s hashlib \<Rightarrow> filesystem \<Rightarrow> string \<Rightarrow> string \<Rightarrow> string \<Rightarrow> string \<Rightarrow> nat \<Rightarrow> (error + string) option"
where
  "numbered_search H fs target_dir base extension new_md5 counter =
     (let unique_filename = numbered_name base extension counter;
          unique_path = os_path_join target_dir unique_filename
      in if \<not> os_path_exists fs unique_path then Some (Inr unique_filename)
         else (case existing_file_md5 H fs unique_path of
                 Inl e \<Rightarrow> Some (Inl e)
               | Inr d \<Rightarrow>
                   if d = new_md5 then Some (Inr unique_filename)
                   else numbered_search H fs target_dir base extension new_md5 (counter + 1)))"

declare numbered_search.simps [code]

text \<open>
  \<^verbatim>\<open>make_unique_filename(target_dir, filename, file_data)\<close>.  The returned name is
  \<open>Some name\<close>, and Python's \<^verbatim>\<open>None\<close> (the file is identical) is \<open>None\<close>.  The payload
  is optional because the caller may pass \<^verbatim>\<open>None\<close>, which \<^verbatim>\<open>hashlib.md5\<close> rejects.
\<close>

definition make_unique_filename ::
  "'s hashlib \<Rightarrow> filesystem \<Rightarrow> string \<Rightarrow> string \<Rightarrow> bytes option \<Rightarrow> (error + string option) option"
where
  "make_unique_filename H fs target_dir filename file_data =
     (let (base, extension) = os_path_splitext filename;
          original_path = os_path_join target_dir filename
      in if os_path_exists fs original_path then
           (case file_data of
              None \<Rightarrow> Some (Inl TypeError)
            | Some data \<Rightarrow>
                (let new_md5 = file_md5 H data in
                 case existing_file_md5 H fs original_path of
                   Inl e \<Rightarrow> Some (Inl e)
                 | Inr d \<Rightarrow>
                     if d = new_md5 then Some (Inr None)
                     else (case numbered_search H fs target_dir base extension new_md5 1 of
                             None \<Rightarrow> None
                           | Some (Inl e) \<Rightarrow> Some (Inl e)
                           | Some (Inr unique_filename) \<Rightarrow> Some (Inr (Some unique_filename)))))
         else Some (Inr (Some filename)))"

section \<open>Attachment extraction\<close>

text \<open>
  The \<^verbatim>\<open>email\<close> parser is a library: a message file is given by what opening and parsing
  it yields, an exception or the parts that \<^verbatim>\<open>msg.walk()\<close> visits in document order.  Of
  a part, the extractor reads its content disposition, its filename and its decoded
  payload (\<^verbatim>\<open>None\<close> for a multipart part).
\<close>

record part =
  get_content_disposition :: "string option"
  get_filename :: "string option"
  get_payload :: "bytes option"

type_synonym message_file = "error + part list"

text \<open>The target directory's files and the shared \<^verbatim>\<open>stats\<close> dictionary.\<close>

record run_state =
  files :: filesystem
  processed :: int
  extracted :: int

text \<open>
  The body of the loop over the parts, for one part.  An exception leaves the function
  with the state reached so far: \<open>Inl e\<close> next to that state.  Opening the output file
  for writing creates it empty before \<^verbatim>\<open>write(None)\<close> raises.
\<close>

definition save_part ::
  "'s hashlib \<Rightarrow> string \<Rightarrow> part \<Rightarrow> run_state \<Rightarrow> ((error + unit) \<times> run_state) option"
where
  "save_part H target_dir p w =
     (if get_content_disposition p = Some ''attachment'' then
        (case get_filename p of
           None \<Rightarrow> Some (Inr (), w)
         | Some filename \<Rightarrow>
             if filename = [] then Some (Inr (), w)
             else (case make_unique_filename H (files w) target_dir filename (get_payload p) of
                     None \<Rightarrow> None
                   | Some (Inl e) \<Rightarrow> Some (Inl e, w)
                   | Some (Inr None) \<Rightarrow> Some (Inr (), w)
                   | Some (Inr (Some unique_filename)) \<Rightarrow>
                       if unique_filename = [] then Some (Inr (), w)
                       else (let save_path = os_path_join target_dir unique_filename in
                             case get_payload p of
                               None \<Rightarrow>
                                 Some (Inl TypeError, w\<lparr>files := (files w)(save_path \<mapsto> [])\<rparr>)
                             | Some file_data \<Rightarrow>
                                 Some (Inr (), w\<lparr>files := (files w)(save_path \<mapsto> file_data),
                                                 extracted := extracted w + 1\<rparr>))))
      else Some (Inr (), w))"

fun walk_parts ::
  "'s hashlib \<Rightarrow> string \<Rightarrow> part list \<Rightarrow> run_state \<Rightarrow> ((error + unit) \<times> run_state) option"
where
  "walk_parts H target_dir [] w = Some (Inr (), w)"
| "walk_parts H target_dir (p # ps) w =
     (case save_part H target_dir p w of
        None \<Rightarrow> None
      | Some (Inl e, w') \<Rightarrow> Some (Inl e, w')
      | Some (Inr u, w') \<Rightarrow> walk_parts H target_dir ps w')"

text \<open>
  \<^verbatim>\<open>extract_attachments_from_file\<close>: \<^verbatim>\<open>stats['processed'] += 1\<close> follows the \<^verbatim>\<open>with\<close>
  block, outside any handler, so it runs only when nothing was raised before it.  The
  progress bar and the console are presentation and are left out.
\<close>

definition extract_attachments_from_file ::
  "'s hashlib \<Rightarrow> string \<Rightarrow> message_file \<Rightarrow> run_state \<Rightarrow> ((error + unit) \<times> run_state) option"
where
  "extract_attachments_from_file H target_dir file w =
     (case file of
        Inl e \<Rightarrow> Some (Inl e, w)
      | Inr msg \<Rightarrow>
          (case walk_parts H target_dir msg w of
             None \<Rightarrow> None
           | Some (Inl e, w') \<Rightarrow> Some (Inl e, w')
           | Some (Inr u, w') \<Rightarrow> Some (Inr (), w'\<lparr>processed := processed w' + 1\<rparr>)))"

text \<open>
  The tasks of \<^verbatim>\<open>extract_and_save_attachments\<close>, run one after the other in the order
  of submission.  An exception raised in a task stays in its future, whose result is
  never asked for, and the next task runs on the state the failed one left.
\<close>

fun run_tasks :: "'s hashlib \<Rightarrow> string \<Rightarrow> message_file list \<Rightarrow> run_state \<Rightarrow> run_state option" where
  "run_tasks H target_dir [] w = Some w"
| "run_tasks H target_dir (file # eml_files) w =
     (case extract_attachments_from_file H target_dir file w of
        None \<Rightarrow> None
      | Some (r, w') \<Rightarrow> run_tasks H target_dir eml_files w')"

text \<open>
  \<^verbatim>\<open>extract_and_save_attachments\<close> starts from \<^verbatim>\<open>{'processed': 0, 'extracted': 0}\<close> and
  returns the two counters; the state of the target directory is returned with them.
\<close>

definition extract_and_save_attachments ::
  "'s hashlib \<Rightarrow> filesystem \<Rightarrow> string \<Rightarrow> message_file list \<Rightarrow> ((int \<times> int) \<times> filesystem) option"
where
  "extract_and_save_attachments H fs target_dir eml_files =
     (case run_tasks H target_dir eml_files \<lparr>files = fs, processed = 0, extracted = 0\<rparr> of
        None \<Rightarrow> None
      | Some w \<Rightarrow> Some ((processed w, extracted w), files w))"

section \<open>Concurrent tasks\<close>

text \<open>
  \<^verbatim>\<open>extract_and_save_attachments\<close> submits one task per message file to a thread pool;
  the tasks share the target directory and \<^verbatim>\<open>stats\<close>, and nothing in the program locks
  either.  A thread can be suspended at every system call, so between the return of
  \<^verbatim>\<open>make_unique_filename\<close> and the \<^verbatim>\<open>open\<close> of the output file other tasks may run.
  A task is modelled by the point it has reached: submitted, at the head of the loop with
  the parts still to visit, holding a name it was given for the current part and about to
  write, finished, or ended by an exception.  One step runs a task from one such point to
  the next on the shared state.
\<close>

datatype task =
    Submitted message_file
  | Walking "part list"
  | Writing string part "part list"
  | Finished
  | Raised error

fun task_step :: "'s hashlib \<Rightarrow> string \<Rightarrow> task \<Rightarrow> run_state \<Rightarrow> (task \<times> run_state) option" where
  "task_step H target_dir (Submitted (Inl e)) w = Some (Raised e, w)"
| "task_step H target_dir (Submitted (Inr msg)) w = Some (Walking msg, w)"
| "task_step H target_dir (Walking []) w = Some (Finished, w\<lparr>processed := processed w + 1\<rparr>)"
| "task_step H target_dir (Walking (p # ps)) w =
     (if get_content_disposition p = Some ''attachment'' then
        (case get_filename p of
           None \<Rightarrow> Some (Walking ps, w)
         | Some filename \<Rightarrow>
             if filename = [] then Some (Walking ps, w)
             else (case make_unique_filename H (files w) target_dir filename (get_payload p) of
                     None \<Rightarrow> None
                   | Some (Inl e) \<Rightarrow> Some (Raised e, w)
                   | Some (Inr None) \<Rightarrow> Some (Walking ps, w)
                   | Some (Inr (Some unique_filename)) \<Rightarrow>
                       if unique_filename = [] then Some (Walking ps, w)
                       else Some (Writing unique_filename p ps, w)))
      else Some (Walking ps, w))"
| "task_step H target_dir (Writing unique_filename p ps) w =
     (let save_path = os_path_join target_dir unique_filename in
      case get_payload p of
        None \<Rightarrow> Some (Raised TypeError, w\<lparr>files := (files w)(save_path \<mapsto> [])\<rparr>)
      | Some file_data \<Rightarrow>
          Some (Walking ps, w\<lparr>files := (files w)(save_path \<mapsto> file_data),
                               extracted := extracted w + 1\<rparr>))"
| "task_step H target_dir Finished w = Some (Finished, w)"
| "task_step H target_dir (Raised e) w = Some (Raised e, w)"


text \<open>
  The step of a task whose write follows its allocation at once, with no other task
  between the two.
\<close>

definition step_with_write ::
  "'s hashlib \<Rightarrow> string \<Rightarrow> task \<Rightarrow> run_state \<Rightarrow> (task \<times> run_state) option"
where
  "step_with_write H target_dir t w =
     (case task_step H target_dir t w of
        None \<Rightarrow> None
      | Some (Writing unique_filename p ps, w') \<Rightarrow>
          task_step H target_dir (Writing unique_filename p ps) w'
      | Some (t', w') \<Rightarrow> Some (t', w'))"

section \<open>Vocabulary for runs over one name family\<close>





section \<open>A digest for concrete runs\<close>

text \<open>
  Concrete runs need a concrete library.  This one keeps the bytes fed so far and spells
  them in hexadecimal, so that two contents have the same digest only if they are equal;
  on the contents used below MD5 decides equality of digests the same way.
\<close>

definition hex_digit :: "nat \<Rightarrow> char" where
  "hex_digit n = ''0123456789abcdef'' ! n"

definition hex_byte :: "byte \<Rightarrow> string" where
  "hex_byte b = [hex_digit (unat b div 16), hex_digit (unat b mod 16)]"

definition hex_hashlib :: "bytes hashlib" where
  "hex_hashlib =
     \<lparr>md5_new = [], md5_update = (\<lambda>s data. s @ data), md5_hexdigest = (\<lambda>s. concat (map hex_byte s))\<rparr>"

section \<open>Properties\<close>

subsection \<open>Names and paths\<close>

lemma digit_char_inj: "a < 10 \<Longrightarrow> b < 10 \<Longrightarrow> digit_char a = digit_char b \<Longrightarrow> a = b"
proof -
  assume a: "a < 10" and b: "b < 10" and e: "digit_char a = digit_char b"
  have d: "distinct ''0123456789''" by simp
  have "length ''0123456789'' = 10" by simp
  with a b e d show ?thesis
    unfolding digit_char_def by (metis nth_eq_iff_index_eq)
qed

lemma str_nonempty: "str n \<noteq> []"
  by (subst str.simps) simp

lemma str_length_small: "length (str n) = Suc 0 \<longleftrightarrow> n < 10"
proof (cases "n < 10")
  case True then show ?thesis by (subst str.simps) simp
next
  case False
  then have "str n = str (n div 10) @ [digit_char (n mod 10)]" by (subst str.simps) simp
  with False str_nonempty [of "n div 10"] show ?thesis by (cases "str (n div 10)") auto
qed

lemma str_inj: "str n = str m \<Longrightarrow> n = m"
proof (induction n arbitrary: m rule: str.induct)
  case (1 n)
  show ?case
  proof (cases "n < 10")
    case True
    then have "length (str n) = Suc 0" by (simp add: str_length_small)
    with "1.prems" have m: "m < 10" by (simp add: str_length_small)
    from True m "1.prems" have "digit_char n = digit_char m"
      by (simp add: str.simps [of n] str.simps [of m])
    with True m show ?thesis by (rule digit_char_inj)
  next
    case False
    then have "length (str n) \<noteq> Suc 0" by (simp add: str_length_small)
    with "1.prems" have m: "\<not> m < 10" by (simp add: str_length_small)
    from False m "1.prems" have eq: "str (n div 10) = str (m div 10)"
      and dg: "digit_char (n mod 10) = digit_char (m mod 10)"
      by (simp_all add: str.simps [of n] str.simps [of m])
    from "1.IH" [OF False eq] have "n div 10 = m div 10" .
    moreover from dg have "n mod 10 = m mod 10" by (auto intro: digit_char_inj)
    ultimately have "n div 10 * 10 + n mod 10 = m div 10 * 10 + m mod 10" by simp
    then show ?thesis by (simp only: div_mult_mod_eq)
  qed
qed

lemma numbered_name_inj: "numbered_name base ext n = numbered_name base ext m \<Longrightarrow> n = m"
  by (simp add: numbered_name_def str_inj)

lemma numbered_name_nonempty: "numbered_name base ext n \<noteq> []"
  by (simp add: numbered_name_def)

lemma startswith_sep_numbered_name:
  "startswith_sep (numbered_name base ext n) = startswith_sep base"
  by (cases base) (simp_all add: numbered_name_def startswith_sep_def)

lemma os_path_join_inj:
  "startswith_sep a = startswith_sep b \<Longrightarrow> os_path_join d a = os_path_join d b \<Longrightarrow> a = b"
  by (auto simp: os_path_join_def split: if_splits)

lemma numbered_path_inj:
  "os_path_join d (numbered_name base ext n) = os_path_join d (numbered_name base ext m) \<Longrightarrow> n = m"
proof -
  assume e: "os_path_join d (numbered_name base ext n) = os_path_join d (numbered_name base ext m)"
  have "startswith_sep (numbered_name base ext n) = startswith_sep (numbered_name base ext m)"
    by (simp only: startswith_sep_numbered_name)
  from this e have "numbered_name base ext n = numbered_name base ext m"
    by (rule os_path_join_inj)
  then show ?thesis by (rule numbered_name_inj)
qed

lemma splitext_append: "os_path_splitext p = (base, ext) \<Longrightarrow> base @ ext = p"
  by (auto simp: os_path_splitext_def Let_def split: if_splits)





subsection \<open>Reading a file in chunks\<close>

lemma read_chunks_streaming:
  "hashlib_streaming H \<Longrightarrow> read_chunks H f s = md5_update H s f"
proof (induction H f s rule: read_chunks.induct)
  case (1 H f s)
  note law = \<open>hashlib_streaming H\<close>
  show ?case
  proof (cases "f = []")
    case True
    have "read_chunks H [] s = s"
      by (simp add: read_chunks.simps [of H "[]" s])
    with True law show ?thesis
      by (simp add: hashlib_streaming_def)
  next
    case False
    then have ne: "take 4096 f \<noteq> []" by simp
    have "read_chunks H f s = read_chunks H (drop 4096 f) (md5_update H s (take 4096 f))"
      using ne by (simp add: read_chunks.simps [of H f s] Let_def)
    also have "\<dots> = md5_update H (md5_update H s (take 4096 f)) (drop 4096 f)"
      using "1.IH" [OF refl ne law] by simp
    also have "\<dots> = md5_update H s (take 4096 f @ drop 4096 f)"
      using law by (simp add: hashlib_streaming_def)
    finally show ?thesis by simp
  qed
qed

lemma hex_hashlib_streaming: "hashlib_streaming hex_hashlib"
  by (simp add: hashlib_streaming_def hex_hashlib_def)

lemma existing_file_md5_file:
  "hashlib_streaming H \<Longrightarrow> fs p = Some b \<Longrightarrow> existing_file_md5 H fs p = Inr (file_md5 H b)"
  by (simp add: existing_file_md5_def file_md5_def read_chunks_streaming)

subsection \<open>The numbered search\<close>

lemma existing_file_md5_Inr:
  "fs p = Some f \<Longrightarrow> \<exists>d. existing_file_md5 H fs p = Inr d"
  by (simp add: existing_file_md5_def)

lemma existing_file_md5_exists:
  "existing_file_md5 H fs p = Inr d \<Longrightarrow> fs p \<noteq> None"
  by (auto simp: existing_file_md5_def split: option.splits)

lemma numbered_search_free:
  "fs (os_path_join target_dir (numbered_name base ext c)) = None \<Longrightarrow>
   numbered_search H fs target_dir base ext new c = Some (Inr (numbered_name base ext c))"
  by (subst numbered_search.simps) (simp add: os_path_exists_def Let_def)

lemma numbered_search_match:
  "existing_file_md5 H fs (os_path_join target_dir (numbered_name base ext c)) = Inr new \<Longrightarrow>
   numbered_search H fs target_dir base ext new c = Some (Inr (numbered_name base ext c))"
  by (subst numbered_search.simps) (simp add: os_path_exists_def Let_def)

lemma numbered_search_next:
  "fs (os_path_join target_dir (numbered_name base ext c)) \<noteq> None \<Longrightarrow>
   existing_file_md5 H fs (os_path_join target_dir (numbered_name base ext c)) \<noteq> Inr new \<Longrightarrow>
   numbered_search H fs target_dir base ext new c =
   numbered_search H fs target_dir base ext new (Suc c)"
  using existing_file_md5_Inr [of fs "os_path_join target_dir (numbered_name base ext c)" _ H]
  by (subst numbered_search.simps) (auto simp: os_path_exists_def Let_def)

lemma numbered_search_skip:
  "\<forall>k. c \<le> k \<and> k < c + j \<longrightarrow>
      fs (os_path_join target_dir (numbered_name base ext k)) \<noteq> None \<and>
      existing_file_md5 H fs (os_path_join target_dir (numbered_name base ext k)) \<noteq> Inr new \<Longrightarrow>
   numbered_search H fs target_dir base ext new c =
   numbered_search H fs target_dir base ext new (c + j)"
proof (induction j arbitrary: c)
  case 0
  then show ?case by simp
next
  case (Suc j)
  have "numbered_search H fs target_dir base ext new c =
        numbered_search H fs target_dir base ext new (Suc c)"
    using Suc.prems by (intro numbered_search_next) auto
  also have "\<dots> = numbered_search H fs target_dir base ext new (Suc c + j)"
    using Suc.prems by (intro Suc.IH) auto
  finally show ?case by simp
qed

lemma numbered_search_least:
  assumes "c \<le> n"
    and "\<forall>k. c \<le> k \<and> k < n \<longrightarrow>
      fs (os_path_join target_dir (numbered_name base ext k)) \<noteq> None \<and>
      existing_file_md5 H fs (os_path_join target_dir (numbered_name base ext k)) \<noteq> Inr new"
    and "fs (os_path_join target_dir (numbered_name base ext n)) = None \<or>
      existing_file_md5 H fs (os_path_join target_dir (numbered_name base ext n)) = Inr new"
  shows "numbered_search H fs target_dir base ext new c = Some (Inr (numbered_name base ext n))"
proof -
  from assms(1) obtain j where n: "n = c + j" by (auto simp: le_iff_add)
  have "numbered_search H fs target_dir base ext new c =
        numbered_search H fs target_dir base ext new (c + j)"
    using assms(2) unfolding n by (rule numbered_search_skip)
  also have "\<dots> = Some (Inr (numbered_name base ext n))"
    using assms(3) unfolding n by (auto intro: numbered_search_free numbered_search_match)
  finally show ?thesis .
qed

lemma free_number_exists:
  assumes "finite (dom fs)"
  shows "\<exists>k\<ge>c. fs (os_path_join target_dir (numbered_name base ext k)) = None"
proof (rule ccontr)
  assume "\<not> ?thesis"
  then have sub: "(\<lambda>k. os_path_join target_dir (numbered_name base ext k)) ` {c..} \<subseteq> dom fs"
    by (auto simp: dom_def)
  have "inj_on (\<lambda>k. os_path_join target_dir (numbered_name base ext k)) {c..}"
    by (auto intro!: inj_onI dest: numbered_path_inj)
  moreover have "infinite {c..}" by (simp add: infinite_Ici)
  ultimately have "infinite ((\<lambda>k. os_path_join target_dir (numbered_name base ext k)) ` {c..})"
    by (simp add: finite_image_iff)
  with sub assms show False by (auto dest: finite_subset)
qed

lemma numbered_search_terminates:
  assumes "finite (dom fs)"
  shows "\<exists>n\<ge>c. numbered_search H fs target_dir base ext new c = Some (Inr (numbered_name base ext n))"
proof -
  let ?brk = "\<lambda>k. c \<le> k \<and>
    (fs (os_path_join target_dir (numbered_name base ext k)) = None \<or>
     existing_file_md5 H fs (os_path_join target_dir (numbered_name base ext k)) = Inr new)"
  from free_number_exists [OF assms] obtain k where "?brk k" by blast
  define n where "n = (LEAST k. ?brk k)"
  have n: "?brk n" unfolding n_def using \<open>?brk k\<close> by (rule LeastI)
  have least: "\<not> ?brk j" if "j < n" for j
    using that unfolding n_def by (rule not_less_Least)
  have "numbered_search H fs target_dir base ext new c = Some (Inr (numbered_name base ext n))"
    using n least by (intro numbered_search_least) auto
  with n show ?thesis by blast
qed

subsection \<open>The allocation routine and the loop body\<close>

lemma make_unique_filename_absent:
  "fs (os_path_join target_dir filename) = None \<Longrightarrow>
   make_unique_filename H fs target_dir filename file_data = Some (Inr (Some filename))"
  by (simp add: make_unique_filename_def os_path_exists_def split: prod.splits)

lemma make_unique_filename_same:
  "existing_file_md5 H fs (os_path_join target_dir filename) = Inr (file_md5 H data) \<Longrightarrow>
   make_unique_filename H fs target_dir filename (Some data) = Some (Inr None)"
  using existing_file_md5_exists [of H fs "os_path_join target_dir filename" "file_md5 H data"]
  by (simp add: make_unique_filename_def os_path_exists_def split: prod.splits)

lemma make_unique_filename_search:
  assumes "os_path_splitext filename = (base, ext)"
    and "fs (os_path_join target_dir filename) \<noteq> None"
    and "existing_file_md5 H fs (os_path_join target_dir filename) \<noteq> Inr (file_md5 H data)"
  shows "make_unique_filename H fs target_dir filename (Some data) =
     (case numbered_search H fs target_dir base ext (file_md5 H data) 1 of
        None \<Rightarrow> None
      | Some (Inl e) \<Rightarrow> Some (Inl e)
      | Some (Inr unique_filename) \<Rightarrow> Some (Inr (Some unique_filename)))"
proof -
  from assms(2) obtain f where "fs (os_path_join target_dir filename) = Some f" by auto
  then obtain d where "existing_file_md5 H fs (os_path_join target_dir filename) = Inr d"
    using existing_file_md5_Inr by blast
  with assms show ?thesis
    by (simp add: make_unique_filename_def os_path_exists_def)
qed

lemma save_part_write:
  assumes "get_content_disposition p = Some ''attachment''"
    and "get_filename p = Some filename" and "filename \<noteq> []"
    and "get_payload p = Some data"
    and "make_unique_filename H (files w) target_dir filename (Some data) = Some (Inr (Some name))"
    and "name \<noteq> []"
  shows "save_part H target_dir p w =
     Some (Inr (), w\<lparr>files := (files w)(os_path_join target_dir name \<mapsto> data),
                      extracted := extracted w + 1\<rparr>)"
  using assms by (simp add: save_part_def)

lemma save_part_skip:
  assumes "get_filename p = Some filename"
    and "get_payload p = Some data"
    and "make_unique_filename H (files w) target_dir filename (Some data) = Some (Inr None)"
  shows "save_part H target_dir p w = Some (Inr (), w)"
  using assms by (simp add: save_part_def)




lemma make_unique_filename_no_payload:
  "fs (os_path_join target_dir filename) \<noteq> None \<Longrightarrow>
   make_unique_filename H fs target_dir filename None = Some (Inl TypeError)"
  by (simp add: make_unique_filename_def os_path_exists_def split: prod.splits)

lemma make_unique_filename_terminates:
  assumes "finite (dom fs)"
  shows "\<exists>r. make_unique_filename H fs target_dir filename file_data = Some r"
proof (cases "fs (os_path_join target_dir filename) = None")
  case True
  then show ?thesis by (simp add: make_unique_filename_absent)
next
  case False
  show ?thesis
  proof (cases file_data)
    case None
    with False show ?thesis by (simp add: make_unique_filename_no_payload)
  next
    case (Some data)
    show ?thesis
    proof (cases "existing_file_md5 H fs (os_path_join target_dir filename) = Inr (file_md5 H data)")
      case True
      with Some show ?thesis by (simp add: make_unique_filename_same)
    next
      case ne: False
      obtain base ext where split: "os_path_splitext filename = (base, ext)"
        by (cases "os_path_splitext filename") auto
      from numbered_search_terminates [OF assms, of 1 H target_dir base ext "file_md5 H data"]
      obtain n where "numbered_search H fs target_dir base ext (file_md5 H data) 1 =
          Some (Inr (numbered_name base ext n))" by blast
      with make_unique_filename_search [OF split False ne] Some show ?thesis by simp
    qed
  qed
qed

subsection \<open>Runs over one name family\<close>











subsection \<open>The steps of a task and the loop body\<close>

lemma step_with_write_save_part:
  "step_with_write H target_dir (Walking (p # ps)) w =
     (case save_part H target_dir p w of
        None \<Rightarrow> None
      | Some (Inl e, w') \<Rightarrow> Some (Raised e, w')
      | Some (Inr u, w') \<Rightarrow> Some (Walking ps, w'))"
  by (simp add: step_with_write_def save_part_def Let_def
      split: option.splits sum.splits)

lemma step_with_write_head:
  "step_with_write H target_dir (Submitted (Inr msg)) w = Some (Walking msg, w)"
  "step_with_write H target_dir (Submitted (Inl e)) w = Some (Raised e, w)"
  "step_with_write H target_dir (Walking []) w = Some (Finished, w\<lparr>processed := processed w + 1\<rparr>)"
  by (simp_all add: step_with_write_def)

subsection \<open>Concrete allocations\<close>

lemma join_report: "os_path_join ''extracted'' ''report.pdf'' = ''extracted/report.pdf''"
  by code_simp

lemma join_report_1: "os_path_join ''extracted'' ''report_1.pdf'' = ''extracted/report_1.pdf''"
  by code_simp

lemma alloc_empty:
  "make_unique_filename hex_hashlib Map.empty ''extracted'' ''report.pdf'' (Some [1]) =
   Some (Inr (Some ''report.pdf''))"
  by code_simp

lemma alloc_after_first:
  "make_unique_filename hex_hashlib [''extracted/report.pdf'' \<mapsto> [1]]
     ''extracted'' ''report.pdf'' (Some [2]) = Some (Inr (Some ''report_1.pdf''))"
  by code_simp

lemma alloc_plain_again:
  "make_unique_filename hex_hashlib
     [''extracted/report.pdf'' \<mapsto> [1], ''extracted/report_1.pdf'' \<mapsto> [2]]
     ''extracted'' ''report.pdf'' (Some [1]) = Some (Inr None)"
  by code_simp

lemma alloc_variant_again:
  "make_unique_filename hex_hashlib
     [''extracted/report.pdf'' \<mapsto> [1], ''extracted/report_1.pdf'' \<mapsto> [2]]
     ''extracted'' ''report.pdf'' (Some [2]) = Some (Inr (Some ''report_1.pdf''))"
  by code_simp

subsection \<open>The two digests agree\<close>

text \<open>
  C7.  For every byte sequence \<open>b\<close> and every file at a path \<open>p\<close> that holds exactly
  \<open>b\<close>, the digest that \<open>existing_file_md5\<close> computes by reading the file in chunks of
  4096 bytes is the digest that \<open>file_md5\<close> computes from \<open>b\<close> in memory, for every hash
  object whose \<open>update\<close> is the streaming one the library documents.
\<close>

theorem existing_file_md5_refines_file_md5:
  assumes "hashlib_streaming H" and "fs p = Some b"
  shows "existing_file_md5 H fs p = Inr (file_md5 H b)"
proof -
  have "read_chunks H b (md5_new H) = md5_update H (md5_new H) b"
    using assms(1) by (rule read_chunks_streaming)
  with assms(2) show ?thesis
    by (simp add: existing_file_md5_def file_md5_def)
qed

theorem existing_file_md5_refines_file_md5_witness:
  "hashlib_streaming hex_hashlib \<and>
   [''extracted/big.bin'' \<mapsto> replicate 5000 (7 :: byte)] ''extracted/big.bin''
     = Some (replicate 5000 7) \<and>
   existing_file_md5 hex_hashlib [''extracted/big.bin'' \<mapsto> replicate 5000 7] ''extracted/big.bin''
     = Inr (file_md5 hex_hashlib (replicate 5000 7))"
  using existing_file_md5_refines_file_md5
    [of hex_hashlib "[''extracted/big.bin'' \<mapsto> replicate 5000 7]" "''extracted/big.bin''"
        "replicate 5000 7"]
  by (simp add: hex_hashlib_streaming)

subsection \<open>The desired name is free, or holds the same content\<close>

text \<open>
  C6.  For every state of the target directory and every desired name: if the plain name
  \<open>base @ ext\<close>, which is the desired name itself, does not exist in the target directory,
  \<open>make_unique_filename\<close> returns it to be written; if it exists and the digest of the
  file on disk equals the digest of the new content, \<open>make_unique_filename\<close> returns
  \<^verbatim>\<open>None\<close> (skip), and the extractor writes nothing and counts nothing for that part.
\<close>

theorem make_unique_filename_plain_name:
  "(fs (os_path_join target_dir filename) = None \<longrightarrow>
      make_unique_filename H fs target_dir filename file_data = Some (Inr (Some filename)) \<and>
      fst (os_path_splitext filename) @ snd (os_path_splitext filename) = filename) \<and>
   (existing_file_md5 H (files w) (os_path_join target_dir filename) = Inr (file_md5 H data) \<longrightarrow>
      make_unique_filename H (files w) target_dir filename (Some data) = Some (Inr None) \<and>
      (get_filename p = Some filename \<and> get_payload p = Some data \<longrightarrow>
         save_part H target_dir p w = Some (Inr (), w)))"
proof (intro conjI impI)
  assume "fs (os_path_join target_dir filename) = None"
  then show "make_unique_filename H fs target_dir filename file_data = Some (Inr (Some filename))"
    by (rule make_unique_filename_absent)
next
  show "fst (os_path_splitext filename) @ snd (os_path_splitext filename) = filename"
    by (rule splitext_append) simp
next
  assume "existing_file_md5 H (files w) (os_path_join target_dir filename) = Inr (file_md5 H data)"
  then show "make_unique_filename H (files w) target_dir filename (Some data) = Some (Inr None)"
    by (rule make_unique_filename_same)
next
  assume "existing_file_md5 H (files w) (os_path_join target_dir filename) = Inr (file_md5 H data)"
    and "get_filename p = Some filename \<and> get_payload p = Some data"
  then show "save_part H target_dir p w = Some (Inr (), w)"
    by (auto intro: save_part_skip make_unique_filename_same)
qed

theorem make_unique_filename_plain_name_witness:
  "Map.empty (os_path_join ''extracted'' ''report.pdf'') = None \<and>
   make_unique_filename hex_hashlib Map.empty ''extracted'' ''report.pdf'' (Some [1])
     = Some (Inr (Some ''report.pdf'')) \<and>
   fst (os_path_splitext ''report.pdf'') @ snd (os_path_splitext ''report.pdf'') = ''report.pdf'' \<and>
   existing_file_md5 hex_hashlib
     (files \<lparr>files = [''extracted/report.pdf'' \<mapsto> [1]], processed = 0, extracted = 0\<rparr>)
     (os_path_join ''extracted'' ''report.pdf'') = Inr (file_md5 hex_hashlib [1]) \<and>
   make_unique_filename hex_hashlib
     (files \<lparr>files = [''extracted/report.pdf'' \<mapsto> [1]], processed = 0, extracted = 0\<rparr>)
     ''extracted'' ''report.pdf'' (Some [1]) = Some (Inr None) \<and>
   save_part hex_hashlib ''extracted''
     \<lparr>get_content_disposition = Some ''attachment'', get_filename = Some ''report.pdf'',
      get_payload = Some [1]\<rparr>
     \<lparr>files = [''extracted/report.pdf'' \<mapsto> [1]], processed = 0, extracted = 0\<rparr>
     = Some (Inr (), \<lparr>files = [''extracted/report.pdf'' \<mapsto> [1]], processed = 0, extracted = 0\<rparr>)"
proof -
  have p: "os_path_join ''extracted'' ''report.pdf'' = ''extracted/report.pdf''"
    by (simp add: os_path_join_def startswith_sep_def endswith_sep_def)
  have d: "existing_file_md5 hex_hashlib
     (files \<lparr>files = [''extracted/report.pdf'' \<mapsto> [1]], processed = 0, extracted = 0\<rparr>)
     (os_path_join ''extracted'' ''report.pdf'') = Inr (file_md5 hex_hashlib [1])"
    by (simp add: p existing_file_md5_file hex_hashlib_streaming)
  show ?thesis
    using d make_unique_filename_plain_name
      [of Map.empty "''extracted''" "''report.pdf''" hex_hashlib "Some [1]"
          "\<lparr>files = [''extracted/report.pdf'' \<mapsto> [1]], processed = 0, extracted = 0\<rparr>"
          "[1]"
          "\<lparr>get_content_disposition = Some ''attachment'', get_filename = Some ''report.pdf'',
            get_payload = Some [1]\<rparr>"]
    by simp
qed

subsection \<open>The decision is a function of the directory, the name and the content\<close>



subsection \<open>The numbered search ends\<close>

text \<open>
  C8.  In every target directory that holds finitely many files the numbered search of
  \<open>make_unique_filename\<close> terminates: from every value of the counter there is a number
  \<open>n\<close> at which the loop breaks and returns the \<open>n\<close>-th numbered name, because the
  numbered names are pairwise different paths and only finitely many of them exist; hence
  \<open>make_unique_filename\<close> itself returns.
\<close>

theorem numbered_search_exits_in_finite_directory:
  assumes "finite (dom fs)"
  shows "(\<exists>n\<ge>counter. numbered_search H fs target_dir base ext new_md5 counter =
            Some (Inr (numbered_name base ext n))) \<and>
         (\<exists>r. make_unique_filename H fs target_dir filename file_data = Some r)"
  using assms by (simp add: numbered_search_terminates make_unique_filename_terminates)

theorem numbered_search_exits_in_finite_directory_witness:
  "finite (dom [''extracted/report.pdf'' \<mapsto> [1 :: byte], ''extracted/report_1.pdf'' \<mapsto> [2]]) \<and>
   (\<exists>n\<ge>1. numbered_search hex_hashlib
       [''extracted/report.pdf'' \<mapsto> [1], ''extracted/report_1.pdf'' \<mapsto> [2]]
       ''extracted'' ''report'' ''.pdf'' (file_md5 hex_hashlib [3]) 1 =
       Some (Inr (numbered_name ''report'' ''.pdf'' n))) \<and>
   (\<exists>r. make_unique_filename hex_hashlib
       [''extracted/report.pdf'' \<mapsto> [1], ''extracted/report_1.pdf'' \<mapsto> [2]]
       ''extracted'' ''report.pdf'' (Some [3]) = Some r)"
proof -
  have fin: "finite (dom [''extracted/report.pdf'' \<mapsto> [1 :: byte], ''extracted/report_1.pdf'' \<mapsto> [2]])"
    by simp
  from fin numbered_search_exits_in_finite_directory [OF fin] show ?thesis by blast
qed

subsection \<open>A new content takes the lowest free number\<close>

text \<open>
  C5.  When the plain file \<open>base @ ext\<close> exists with a digest different from the new
  content's, \<open>n\<close> is the smallest positive number whose numbered name does not exist in
  the target directory, and the digest of every existing numbered variant below it differs
  from the new content's, then \<open>make_unique_filename\<close> returns the \<open>n\<close>-th numbered name
  and the extractor creates exactly one new file, under that name, holding the content,
  and counts one extraction.  (The variants above \<open>n\<close> are never read, so nothing is
  asked of them.)
\<close>

theorem make_unique_filename_lowest_free_number:
  assumes "os_path_splitext filename = (base, ext)"
    and "files w (os_path_join target_dir filename) \<noteq> None"
    and "existing_file_md5 H (files w) (os_path_join target_dir filename) \<noteq> Inr (file_md5 H data)"
    and "\<forall>k. 1 \<le> k \<and> k < n \<longrightarrow>
           files w (os_path_join target_dir (numbered_name base ext k)) \<noteq> None \<and>
           existing_file_md5 H (files w) (os_path_join target_dir (numbered_name base ext k))
             \<noteq> Inr (file_md5 H data)"
    and "1 \<le> n"
    and "files w (os_path_join target_dir (numbered_name base ext n)) = None"
    and "get_content_disposition p = Some ''attachment''"
    and "get_filename p = Some filename" and "filename \<noteq> []"
    and "get_payload p = Some data"
  shows "make_unique_filename H (files w) target_dir filename (Some data) =
           Some (Inr (Some (numbered_name base ext n))) \<and>
         save_part H target_dir p w =
           Some (Inr (), w\<lparr>files := (files w)(os_path_join target_dir (numbered_name base ext n) \<mapsto> data),
                            extracted := extracted w + 1\<rparr>)"
proof -
  have "numbered_search H (files w) target_dir base ext (file_md5 H data) 1 =
        Some (Inr (numbered_name base ext n))"
    using assms(5,4,6) by (intro numbered_search_least) auto
  with make_unique_filename_search [OF assms(1-3)]
  have m: "make_unique_filename H (files w) target_dir filename (Some data) =
        Some (Inr (Some (numbered_name base ext n)))" by simp
  from save_part_write [OF assms(7-10) m numbered_name_nonempty] m show ?thesis by simp
qed


theorem make_unique_filename_lowest_free_number_witness:
  "os_path_splitext ''report.pdf'' = (''report'', ''.pdf'') \<and>
   [''extracted/report.pdf'' \<mapsto> [1 :: byte], ''extracted/report_1.pdf'' \<mapsto> [2]]
     (os_path_join ''extracted'' ''report.pdf'') \<noteq> None \<and>
   existing_file_md5 hex_hashlib
     [''extracted/report.pdf'' \<mapsto> [1], ''extracted/report_1.pdf'' \<mapsto> [2]]
     (os_path_join ''extracted'' ''report.pdf'') \<noteq> Inr (file_md5 hex_hashlib [3]) \<and>
   [''extracted/report.pdf'' \<mapsto> [1 :: byte], ''extracted/report_1.pdf'' \<mapsto> [2]]
     (os_path_join ''extracted'' (numbered_name ''report'' ''.pdf'' 1)) \<noteq> None \<and>
   existing_file_md5 hex_hashlib
     [''extracted/report.pdf'' \<mapsto> [1], ''extracted/report_1.pdf'' \<mapsto> [2]]
     (os_path_join ''extracted'' (numbered_name ''report'' ''.pdf'' 1))
     \<noteq> Inr (file_md5 hex_hashlib [3]) \<and>
   [''extracted/report.pdf'' \<mapsto> [1 :: byte], ''extracted/report_1.pdf'' \<mapsto> [2]]
     (os_path_join ''extracted'' (numbered_name ''report'' ''.pdf'' 2)) = None \<and>
   make_unique_filename hex_hashlib
     [''extracted/report.pdf'' \<mapsto> [1], ''extracted/report_1.pdf'' \<mapsto> [2]]
     ''extracted'' ''report.pdf'' (Some [3]) = Some (Inr (Some ''report_2.pdf'')) \<and>
   save_part hex_hashlib ''extracted''
     \<lparr>get_content_disposition = Some ''attachment'', get_filename = Some ''report.pdf'',
      get_payload = Some [3]\<rparr>
     \<lparr>files = [''extracted/report.pdf'' \<mapsto> [1], ''extracted/report_1.pdf'' \<mapsto> [2]],
      processed = 0, extracted = 0\<rparr> =
   Some (Inr (),
     \<lparr>files = [''extracted/report.pdf'' \<mapsto> [1], ''extracted/report_1.pdf'' \<mapsto> [2],
               ''extracted/report_2.pdf'' \<mapsto> [3]],
      processed = 0, extracted = 1\<rparr>)"
proof -
  let ?fs = "[''extracted/report.pdf'' \<mapsto> [1 :: byte], ''extracted/report_1.pdf'' \<mapsto> [2]]"
  have h1: "os_path_splitext ''report.pdf'' = (''report'', ''.pdf'')"
    by code_simp
  have h2: "?fs (os_path_join ''extracted'' ''report.pdf'') \<noteq> None"
    by code_simp
  have h3: "existing_file_md5 hex_hashlib ?fs (os_path_join ''extracted'' ''report.pdf'')
      \<noteq> Inr (file_md5 hex_hashlib [3])"
    by code_simp
  have one: "?fs (os_path_join ''extracted'' (numbered_name ''report'' ''.pdf'' 1)) \<noteq> None \<and>
      existing_file_md5 hex_hashlib ?fs (os_path_join ''extracted'' (numbered_name ''report'' ''.pdf'' 1))
        \<noteq> Inr (file_md5 hex_hashlib [3])"
    by code_simp
  have h4: "\<forall>k. 1 \<le> k \<and> k < 2 \<longrightarrow>
      ?fs (os_path_join ''extracted'' (numbered_name ''report'' ''.pdf'' k)) \<noteq> None \<and>
      existing_file_md5 hex_hashlib ?fs (os_path_join ''extracted'' (numbered_name ''report'' ''.pdf'' k))
        \<noteq> Inr (file_md5 hex_hashlib [3])"
  proof (intro allI impI)
    fix k :: nat
    assume "1 \<le> k \<and> k < 2"
    then have "k = 1" by simp
    with one show "?fs (os_path_join ''extracted'' (numbered_name ''report'' ''.pdf'' k)) \<noteq> None \<and>
      existing_file_md5 hex_hashlib ?fs (os_path_join ''extracted'' (numbered_name ''report'' ''.pdf'' k))
        \<noteq> Inr (file_md5 hex_hashlib [3])" by simp
  qed
  have h6: "?fs (os_path_join ''extracted'' (numbered_name ''report'' ''.pdf'' 2)) = None"
    by code_simp
  have name: "numbered_name ''report'' ''.pdf'' 2 = ''report_2.pdf''"
    by code_simp
  have path: "os_path_join ''extracted'' ''report_2.pdf'' = ''extracted/report_2.pdf''"
    by code_simp
  from make_unique_filename_lowest_free_number
    [where w = "\<lparr>files = ?fs, processed = 0, extracted = 0\<rparr>" and H = hex_hashlib
       and target_dir = "''extracted''" and filename = "''report.pdf''" and base = "''report''"
       and ext = "''.pdf''" and data = "[3]" and n = 2
       and p = "\<lparr>get_content_disposition = Some ''attachment'', get_filename = Some ''report.pdf'',
                 get_payload = Some [3]\<rparr>"]
    h1 h2 h3 h4 h6
  have "make_unique_filename hex_hashlib ?fs ''extracted'' ''report.pdf'' (Some [3]) =
           Some (Inr (Some (numbered_name ''report'' ''.pdf'' 2))) \<and>
        save_part hex_hashlib ''extracted''
          \<lparr>get_content_disposition = Some ''attachment'', get_filename = Some ''report.pdf'',
            get_payload = Some [3]\<rparr>
          \<lparr>files = ?fs, processed = 0, extracted = 0\<rparr> =
        Some (Inr (), \<lparr>files = ?fs, processed = 0, extracted = 0\<rparr>
          \<lparr>files := ?fs(os_path_join ''extracted'' (numbered_name ''report'' ''.pdf'' 2) \<mapsto> [3]),
           extracted := 0 + 1\<rparr>)"
    by simp
  then show ?thesis using h1 h2 h3 one h6 by (simp add: name path)
qed

subsection \<open>Duplicates are detected within one name family only\<close>



subsection \<open>A content found under a numbered name\<close>

text \<open>
  C1.  The claim: when the content's digest equals the digest of an existing numbered
  variant \<open>base_n ext\<close>, while the plain file exists with another digest,
  \<open>make_unique_filename\<close> returns \<^verbatim>\<open>None\<close>, no file is written and the extracted counter
  stays.  The code does otherwise: the loop breaks on the matching variant and the function
  returns that variant's name, not \<^verbatim>\<open>None\<close> as it does for a matching plain file; the
  caller, whose test reads "File doesn't have an identical match", writes the file again
  and counts one more extraction.  The run below has \<^verbatim>\<open>report.pdf\<close> holding the byte 1,
  \<^verbatim>\<open>report_1.pdf\<close> holding the byte 2 and an attachment \<^verbatim>\<open>report.pdf\<close> holding the byte 2.
\<close>

theorem numbered_variant_match_is_written_again:
  "make_unique_filename hex_hashlib
     [''extracted/report.pdf'' \<mapsto> [1], ''extracted/report_1.pdf'' \<mapsto> [2]]
     ''extracted'' ''report.pdf'' (Some [2]) = Some (Inr (Some ''report_1.pdf'')) \<and>
   save_part hex_hashlib ''extracted''
     \<lparr>get_content_disposition = Some ''attachment'', get_filename = Some ''report.pdf'',
      get_payload = Some [2]\<rparr>
     \<lparr>files = [''extracted/report.pdf'' \<mapsto> [1], ''extracted/report_1.pdf'' \<mapsto> [2]],
      processed = 0, extracted = 0\<rparr> =
   Some (Inr (),
     \<lparr>files = [''extracted/report.pdf'' \<mapsto> [1], ''extracted/report_1.pdf'' \<mapsto> [2]],
      processed = 0, extracted = 1\<rparr>)"
  by (simp add: save_part_def alloc_variant_again join_report_1)

subsection \<open>Running the extraction twice\<close>

text \<open>
  C3.  The claim: a second run over the same message files into the same target directory
  changes no file and extracts nothing, its extracted count being 0.  The files do stay
  as they are, but the second run counts every attachment that the first run stored under
  a numbered name: for one message with two attachments named \<^verbatim>\<open>report.pdf\<close>, holding
  the bytes 1 and 2, the first run from an empty directory extracts 2 and the second run
  extracts 1.  It is the defect of C1.
\<close>

theorem second_run_extracts_again:
  "extract_and_save_attachments hex_hashlib Map.empty ''extracted''
     [Inr [\<lparr>get_content_disposition = Some ''attachment'', get_filename = Some ''report.pdf'',
            get_payload = Some [1]\<rparr>,
           \<lparr>get_content_disposition = Some ''attachment'', get_filename = Some ''report.pdf'',
            get_payload = Some [2]\<rparr>]] =
   Some ((1, 2), [''extracted/report.pdf'' \<mapsto> [1], ''extracted/report_1.pdf'' \<mapsto> [2]]) \<and>
   extract_and_save_attachments hex_hashlib
     [''extracted/report.pdf'' \<mapsto> [1], ''extracted/report_1.pdf'' \<mapsto> [2]] ''extracted''
     [Inr [\<lparr>get_content_disposition = Some ''attachment'', get_filename = Some ''report.pdf'',
            get_payload = Some [1]\<rparr>,
           \<lparr>get_content_disposition = Some ''attachment'', get_filename = Some ''report.pdf'',
            get_payload = Some [2]\<rparr>]] =
   Some ((1, 1), [''extracted/report.pdf'' \<mapsto> [1], ''extracted/report_1.pdf'' \<mapsto> [2]])"
  by (simp add: extract_and_save_attachments_def extract_attachments_from_file_def save_part_def
      alloc_empty alloc_after_first alloc_plain_again alloc_variant_again join_report join_report_1)

subsection \<open>A message file that does not parse\<close>



subsection \<open>Attachments of one name from several message files\<close>




end
